theory Spec2Isabelle
  imports Main "HOL-Library.Sublist"
begin

section \<open>Text, and what the Python runtime supplies\<close>

text \<open>
  A Python \<open>str\<close> is a sequence of Unicode code points, and \<open>len\<close>, slicing and the
  regular expressions of \<open>bot.py\<close> count code points. A string is therefore a list of
  code points; \<open>u ''abc''\<close> writes an ASCII literal.
\<close>

type_synonym ustr = "nat list"

definition u :: "string \<Rightarrow> ustr" where
  "u s = map of_char s"

text \<open>
  Five things \<open>bot.py\<close> takes from the runtime cannot be written down here and are
  parameters of the model:
  \<^item> \<open>rt_decomp c\<close>: the full compatibility decomposition of a code point \<open>c \<ge> 128\<close>
    (the table behind \<open>unicodedata.normalize("NFKD", _)\<close>);
  \<^item> \<open>rt_digit c\<close>: the value of a code point \<open>c \<ge> 128\<close> of category Nd, which \<open>\d\<close>
    matches and \<open>int\<close> reads, \<open>None\<close> for any other;
  \<^item> \<open>rt_upper c\<close>: the upper-case mapping of a code point \<open>c \<ge> 128\<close>, which
    \<open>str.upper\<close> applies code point by code point;
  \<^item> \<open>rt_percent c t\<close>: \<open>int((c / t) * 100)\<close> in double-precision arithmetic, for
    \<open>t \<noteq> 0\<close> (the \<open>OverflowError\<close> of a quotient beyond the range of a double, which
    takes a number of more than 300 digits, is left out);
  \<^item> \<open>rt_seps\<close>: the path separators \<open>os.path.splitext\<close> looks for (\<open>/\<close> on POSIX,
    \<open>\\<close> and \<open>/\<close> on Windows).
\<close>

record runtime =
  rt_decomp :: "nat \<Rightarrow> ustr"
  rt_digit :: "nat \<Rightarrow> nat option"
  rt_upper :: "nat \<Rightarrow> ustr"
  rt_percent :: "int \<Rightarrow> int \<Rightarrow> int"
  rt_seps :: "nat list"

text \<open>
  A runtime for evaluating the model on ASCII text: no decomposition, no digit and no
  upper case beyond ASCII, POSIX paths, and the quotient truncated exactly, which is what
  the double-precision computation gives for the numbers evaluated below.
\<close>

definition ascii_rt :: runtime where
  "ascii_rt = \<lparr> rt_decomp = (\<lambda>c. [c]), rt_digit = (\<lambda>c. None), rt_upper = (\<lambda>c. [c]),
                rt_percent = (\<lambda>c t. (c * 100) div t), rt_seps = [47] \<rparr>"

text \<open>The same with the decomposition of U+00E9 into \<open>e\<close> and the combining acute accent.\<close>

definition accent_rt :: runtime where
  "accent_rt = ascii_rt\<lparr>rt_decomp := (\<lambda>c. if c = 233 then [101, 769] else [c])\<rparr>"

definition is_ascii :: "nat \<Rightarrow> bool" where
  "is_ascii c \<longleftrightarrow> c < 128"

text \<open>\<open>str.isspace\<close> of one code point; \<open>\s\<close> in a \<open>str\<close> pattern and \<open>str.strip()\<close> use it.\<close>

definition is_space :: "nat \<Rightarrow> bool" where
  "is_space c \<longleftrightarrow> c \<in> set [9, 10, 11, 12, 13, 28, 29, 30, 31, 32, 133, 160, 5760,
     8192, 8193, 8194, 8195, 8196, 8197, 8198, 8199, 8200, 8201, 8202, 8232, 8233, 8239,
     8287, 12288]"

text \<open>\<open>s[:k]\<close>: a negative \<open>k\<close> counts from the end.\<close>

definition py_take :: "int \<Rightarrow> 'a list \<Rightarrow> 'a list" where
  "py_take k xs = (if 0 \<le> k then take (nat k) xs else take (length xs - nat (- k)) xs)"

text \<open>\<open>s.rfind\<close> of a one-character class: the last index holding such a character, or -1.\<close>

fun rfind :: "(nat \<Rightarrow> bool) \<Rightarrow> ustr \<Rightarrow> int" where
  "rfind P [] = - 1"
| "rfind P (c # cs) =
     (let r = rfind P cs in if 0 \<le> r then r + 1 else if P c then 0 else - 1)"

text \<open>\<open>sub in s\<close>.\<close>

fun has_sub :: "ustr \<Rightarrow> ustr \<Rightarrow> bool" where
  "has_sub sub [] = (sub = [])"
| "has_sub sub (c # cs) = (prefix sub (c # cs) \<or> has_sub sub cs)"


text \<open>\<open>s.upper()\<close>.\<close>

definition py_upper :: "runtime \<Rightarrow> ustr \<Rightarrow> ustr" where
  "py_upper rt s =
     concat (map (\<lambda>c. if is_ascii c then [if 97 \<le> c \<and> c \<le> 122 then c - 32 else c]
                       else rt_upper rt c) s)"


function split_from :: "ustr \<Rightarrow> ustr \<Rightarrow> ustr \<Rightarrow> ustr list" where
  "split_from sep part [] = [part]"
| "split_from sep part (c # cs) =
     (if sep \<noteq> [] \<and> prefix sep (c # cs)
      then part # split_from sep [] (drop (length sep) (c # cs))
      else split_from sep (part @ [c]) cs)"
  by pat_completeness auto
termination
  by (relation "measure (\<lambda>(sep, part, s). length s)") (auto simp: neq_Nil_conv)

definition py_split :: "ustr \<Rightarrow> ustr \<Rightarrow> ustr list" where
  "py_split sep s = split_from sep [] s"

text \<open>\<open>str(n)\<close> of an integer.\<close>

function str_nat :: "nat \<Rightarrow> ustr" where
  "str_nat n = (if n < 10 then [48 + n] else str_nat (n div 10) @ [48 + n mod 10])"
  by pat_completeness auto
termination
  by (relation "measure id") auto

declare str_nat.simps [simp del]

definition str_int :: "int \<Rightarrow> ustr" where
  "str_int i = (if i < 0 then 45 # str_nat (nat (- i)) else str_nat (nat i))"

subsection \<open>The regular expressions\<close>

text \<open>
  \<open>re.search\<close> tries the pattern at every position from the left and returns the first
  match; \<open>re_search m s\<close> does so for a matcher \<open>m\<close> of the pattern at the head of a string.
\<close>

fun re_search :: "(ustr \<Rightarrow> 'a option) \<Rightarrow> ustr \<Rightarrow> 'a option" where
  "re_search m [] = m []"
| "re_search m (c # cs) = (case m (c # cs) of Some r \<Rightarrow> Some r | None \<Rightarrow> re_search m cs)"

text \<open>A literal: what follows it, if the string starts with it.\<close>

definition lit :: "ustr \<Rightarrow> ustr \<Rightarrow> ustr option" where
  "lit l s = (if prefix l s then Some (drop (length l) s) else None)"

text \<open>
  \<open>(\d+)\<close> read by \<open>int\<close>: the longest run of decimal digits, which must not be empty,
  its value and what follows it. Every pattern of \<open>bot.py\<close> continues with a character
  that is no digit, so giving back a digit never lets the match succeed. (The limit of
  4300 digits that \<open>int\<close> reads in Python 3.11 is left out.)
\<close>

definition digit_val :: "runtime \<Rightarrow> nat \<Rightarrow> nat option" where
  "digit_val rt c = (if 48 \<le> c \<and> c \<le> 57 then Some (c - 48)
                     else if is_ascii c then None else rt_digit rt c)"

definition digits :: "runtime \<Rightarrow> ustr \<Rightarrow> (int \<times> ustr) option" where
  "digits rt s =
     (let ds = takeWhile (\<lambda>c. digit_val rt c \<noteq> None) s
      in if ds = [] then None
         else Some (foldl (\<lambda>a c. 10 * a + int (the (digit_val rt c))) 0 ds, drop (length ds) s))"

text \<open>\<open>.\<close> matches every code point but the line feed.\<close>

definition dot :: "nat \<Rightarrow> bool" where
  "dot c \<longleftrightarrow> c \<noteq> 10"

text \<open>\<open>(.+)\<close> at the end of a pattern: the longest run of \<open>.\<close>, not empty.\<close>

definition greedy_rest :: "ustr \<Rightarrow> ustr option" where
  "greedy_rest s = (let g = takeWhile dot s in if g = [] then None else Some g)"

text \<open>
  \<open>(.*?)\<close> before a continuation \<open>k\<close>: the shortest run of \<open>.\<close> after which \<open>k\<close>
  matches; \<open>lazy_until k acc s\<close> has already taken \<open>acc\<close>. \<open>(.+?)\<close> takes one \<open>.\<close> first.
\<close>

fun lazy_until :: "(ustr \<Rightarrow> bool) \<Rightarrow> ustr \<Rightarrow> ustr \<Rightarrow> ustr option" where
  "lazy_until k acc [] = (if k [] then Some acc else None)"
| "lazy_until k acc (c # cs) =
     (if k (c # cs) then Some acc
      else if dot c then lazy_until k (acc @ [c]) cs else None)"



text \<open>\<open>Downloading (\d+) of (\d+): (.+)\<close> at the head of a string.\<close>

definition downloading_at :: "runtime \<Rightarrow> ustr \<Rightarrow> (int \<times> int \<times> ustr) option" where
  "downloading_at rt s =
     (case lit (u ''Downloading '') s of None \<Rightarrow> None | Some s1 \<Rightarrow>
      case digits rt s1 of None \<Rightarrow> None | Some (i, s2) \<Rightarrow>
      case lit (u '' of '') s2 of None \<Rightarrow> None | Some s3 \<Rightarrow>
      case digits rt s3 of None \<Rightarrow> None | Some (n, s4) \<Rightarrow>
      case lit (u '': '') s4 of None \<Rightarrow> None | Some s5 \<Rightarrow>
      map_option (\<lambda>label. (i, n, label)) (greedy_rest s5))"

text \<open>\<open>Downloaded "(.*?)":\<close> at the head of a string.\<close>

definition downloaded_at :: "ustr \<Rightarrow> ustr option" where
  "downloaded_at s =
     (case lit (u ''Downloaded '' @ [34]) s of None \<Rightarrow> None
      | Some s1 \<Rightarrow> lazy_until (prefix [34, 58]) [] s1)"


section \<open>\<open>CloudUploader.safe_filename\<close>\<close>

text \<open>
  \<open>os.path.splitext\<close> (\<open>genericpath._splitext\<close>): the extension starts at the last dot,
  provided that dot comes after the last separator and some character between the two is
  not a dot.
\<close>

definition splitext :: "runtime \<Rightarrow> ustr \<Rightarrow> ustr \<times> ustr" where
  "splitext rt p =
     (let sepIndex = rfind (\<lambda>c. c \<in> set (rt_seps rt)) p;
          dotIndex = rfind (\<lambda>c. c = 46) p
      in if sepIndex < dotIndex \<and>
            list_ex (\<lambda>c. c \<noteq> 46) (take (nat (dotIndex - (sepIndex + 1))) (drop (nat (sepIndex + 1)) p))
         then (take (nat dotIndex) p, drop (nat dotIndex) p)
         else (p, []))"

text \<open>
  \<open>unicodedata.normalize("NFKD", s).encode("ascii", "ignore").decode("ascii")\<close>: every
  code point is replaced by its decomposition and what is not ASCII is dropped. An ASCII
  code point has no decomposition, and the reordering of combining marks that ends the
  normalisation moves no ASCII code point, so the result is computed code point by code
  point.
\<close>

definition ascii_fold :: "runtime \<Rightarrow> ustr \<Rightarrow> ustr" where
  "ascii_fold rt s = filter is_ascii (concat (map (\<lambda>c. if is_ascii c then [c] else rt_decomp rt c) s))"

text \<open>The character class \<open>[\s/\\:*?"<>|]\<close>.\<close>

definition unsafe :: "nat \<Rightarrow> bool" where
  "unsafe c \<longleftrightarrow> is_space c \<or> c \<in> set [47, 92, 58, 42, 63, 34, 60, 62, 124]"

text \<open>\<open>re.sub(r'[\s/\\:*?"<>|]+', '_', s)\<close>: every maximal run of the class becomes one \<open>_\<close>.\<close>

function sub_unsafe :: "ustr \<Rightarrow> ustr" where
  "sub_unsafe [] = []"
| "sub_unsafe (c # cs) =
     (if unsafe c then 95 # sub_unsafe (dropWhile unsafe cs) else c # sub_unsafe cs)"
  by pat_completeness auto
termination
  by (relation "measure length") (auto simp: length_dropWhile_le less_Suc_eq_le)

definition safe_filename :: "runtime \<Rightarrow> ustr \<Rightarrow> int \<Rightarrow> ustr" where
  "safe_filename rt filename max_length =
     (let (base, ext) = splitext rt filename;
          base = ascii_fold rt base;
          base = sub_unsafe base;
          ext = (if 10 < length ext then take 10 ext else ext);
          max_base_len = max_length - int (length ext);
          base = (if max_base_len < int (length base) then py_take max_base_len base else base)
      in base @ ext)"

section \<open>The progress record\<close>

text \<open>
  An entry of \<open>self.download_progress\<close>, with the keys \<open>process_download\<close> gives it; the
  key \<open>playlist_info_sent\<close> is absent until the collection banner has been seen, and is
  read with the default \<open>False\<close>.
\<close>

record progress =
  chat_id :: int
  message_id :: int
  current_track :: ustr
  percentage :: int
  status :: ustr
  total_tracks :: int
  completed_tracks :: int
  upload_progress :: int
  upload_status :: ustr
  platform :: ustr
  playlist_name :: "ustr option"
  zip_password :: ustr
  playlist_info_sent :: bool

definition init_progress :: "int \<Rightarrow> int \<Rightarrow> ustr \<Rightarrow> ustr \<Rightarrow> progress" where
  "init_progress chat msg plat pw =
     \<lparr> chat_id = chat, message_id = msg, current_track = u ''Initializing...'',
       percentage = 0, status = u ''starting'', total_tracks = 1, completed_tracks = 0,
       upload_progress = 0, upload_status = [], platform = plat, playlist_name = None,
       zip_password = pw, playlist_info_sent = False \<rparr>"

datatype py_error = ZeroDivisionError | ValueError | AttributeError

text \<open>
  What a handler does to the outside: messages to the chat transport (their texts without
  the decoration of emoji and Markdown), tasks it starts, and calls of the fallback
  downloader.
\<close>

datatype event =
    SendMessage int ustr
  | EditMessage int int ustr
  | EditReplyMarkup int int "ustr list list"
  | PlaylistAnnouncement int ustr int
  | FallbackCall ustr
  | StartDownload int int "ustr \<rightharpoonup> ustr" ustr

section \<open>\<open>_process_spotdl_output\<close>: the status stream of the primary strategy\<close>


text \<open>
  The progress line and the \<open>Downloaded\<close> line. The quotient raises
  \<open>ZeroDivisionError\<close> for a total of 0; the record is returned as it is at that point.
\<close>

definition track_step :: "runtime \<Rightarrow> ustr \<Rightarrow> progress \<Rightarrow> (py_error \<times> progress) + progress" where
  "track_step rt line_str p =
     (case re_search (downloading_at rt) line_str of
        Some (completed, total_n, current) \<Rightarrow>
          if total_n = 0 then Inl (ZeroDivisionError, p)
          else Inr (p\<lparr>percentage := rt_percent rt completed total_n, current_track := current,
                      completed_tracks := completed, total_tracks := total_n\<rparr>)
      | None \<Rightarrow>
         (case re_search downloaded_at line_str of
            Some name \<Rightarrow>
              (let p1 = (if completed_tracks p < total_tracks p
                         then p\<lparr>completed_tracks := completed_tracks p + 1\<rparr> else p);
                   total_n = total_tracks p1
               in if total_n = 0 then Inl (ZeroDivisionError, p1)
                  else Inr (p1\<lparr>percentage := min (rt_percent rt (completed_tracks p1) total_n) 100,
                              current_track := name\<rparr>))
          | None \<Rightarrow> Inr p))"












section \<open>\<open>fallback_download_with_ytdlp\<close>: the chain of searches\<close>








section \<open>\<open>update_progress_periodically\<close> and \<open>update_progress_message\<close>\<close>

text \<open>
  One turn of the periodic task up to its sleep. \<open>mp3_count\<close> is the number of \<open>*.mp3\<close>
  files in the newest directory of the user, \<open>None\<close> when there is no such directory.
\<close>

definition update_progress_periodically :: "runtime \<Rightarrow> nat option \<Rightarrow> progress \<Rightarrow> progress" where
  "update_progress_periodically rt mp3_count progress_info =
     (if platform progress_info = u ''spotify''
      then (case mp3_count of
              None \<Rightarrow> progress_info
            | Some n \<Rightarrow>
               (let completed = int n
                in if 0 < completed
                   then (let p1 = progress_info\<lparr>completed_tracks := completed\<rparr>
                         in if 0 < total_tracks p1
                            then p1\<lparr>percentage := rt_percent rt completed (total_tracks p1)\<rparr>
                            else p1)
                   else progress_info))
      else progress_info)"

text \<open>
  The download part of the progress message: the completed and total counts it prints and
  the number of filled cells of its bar of 20. The record itself is only read.
\<close>

definition shown_progress :: "progress \<Rightarrow> int \<times> int \<times> int" where
  "shown_progress progress_info =
     (let completed = completed_tracks progress_info;
          total_n = total_tracks progress_info;
          total_n = (if total_n \<le> 0 then 1 else total_n);
          completed = (if total_n < completed then total_n else completed)
      in (completed, total_n, (20 * completed) div total_n))"

text \<open>
  The bounds the specification states for a progress record: the percentage lies between
  0 and 100 and the completed count does not exceed the total.
\<close>

definition within_bounds :: "progress \<Rightarrow> bool" where
  "within_bounds p \<longleftrightarrow>
     0 \<le> percentage p \<and> percentage p \<le> 100 \<and> completed_tracks p \<le> total_tracks p"

section \<open>\<open>process_download\<close>: how the files are delivered\<close>





section \<open>\<open>get_content_name\<close>: the name of the archive\<close>




section \<open>\<open>handle_callback_query\<close>: the buttons of the conversation\<close>

record conversation =
  url_info_of :: "ustr \<rightharpoonup> ustr"
  state_of :: ustr

text \<open>
  The dictionaries of the bot; a task of \<open>self.user_tasks\<close> is the download it runs: chat,
  user, request and format.
\<close>

record bot =
  user_state :: "int \<rightharpoonup> conversation"
  user_tasks :: "int \<rightharpoonup> int \<times> int \<times> (ustr \<rightharpoonup> ustr) \<times> ustr"
  progress_of :: "int \<rightharpoonup> progress"
  active_downloads :: "int set"

record callback_query =
  cq_chat_id :: int
  cq_from_id :: int
  cq_message_id :: int
  cq_data :: ustr

text \<open>\<open>_, x, _ = data.split('|')\<close>: \<open>ValueError\<close> unless there are exactly three parts.\<close>

definition middle_of_three :: "ustr \<Rightarrow> py_error + ustr" where
  "middle_of_three data = (case py_split (u ''|'') data of [a, x, b] \<Rightarrow> Inr x | _ \<Rightarrow> Inl ValueError)"

text \<open>The rows of buttons for the resolutions, highest first, two to a row.\<close>

fun rows_of_two :: "'a list \<Rightarrow> 'a list list" where
  "rows_of_two (x # y # zs) = [x, y] # rows_of_two zs"
| "rows_of_two [x] = [[x]]"
| "rows_of_two [] = []"

text \<open>
  \<open>resolutions\<close> is what \<open>get_youtube_resolutions\<close> finds for the request when it is
  asked. The result is what is sent and the dictionaries afterwards; an exception is
  caught by the handler, which then sends its apology.
\<close>

definition handle_callback_query ::
  "runtime \<Rightarrow> int list \<Rightarrow> callback_query \<Rightarrow> bot \<Rightarrow> event list \<times> bot" where
  "handle_callback_query rt resolutions cq b =
     (let chat = cq_chat_id cq; user_id = cq_from_id cq; message = cq_message_id cq;
          data = cq_data cq;
          apology = SendMessage chat (u ''An error occurred. Please try again.'')
      in if \<not> has_sub (u ''|'' @ str_int user_id) data
         then ([SendMessage chat (u ''This button is not for you.'')], b)
         else
          (case user_state b user_id of
             None \<Rightarrow>
               ([SendMessage chat (u ''This session has expired. Please send the link again.''),
                 EditMessage chat message (u ''This session has expired.'')], b)
           | Some state_data \<Rightarrow>
              (let url_info = url_info_of state_data
               in if prefix (u ''yt_type|'') data
                  then
                    (case middle_of_three data of
                       Inl e \<Rightarrow> ([apology], b)
                     | Inr media_type \<Rightarrow>
                        if media_type = u ''mp3''
                        then ([EditMessage chat message (u ''Audio selected. Choose your quality:''),
                               EditReplyMarkup chat message
                                 [[u ''yt_audio|mp3|'' @ str_int user_id,
                                   u ''yt_audio|flac|'' @ str_int user_id]]],
                              b\<lparr>user_state := (user_state b)(user_id \<mapsto>
                                    state_data\<lparr>state_of := u ''awaiting_audio_quality''\<rparr>)\<rparr>)
                        else if media_type = u ''mp4''
                        then
                          (let b1 = b\<lparr>user_state := (user_state b)(user_id \<mapsto>
                                          state_data\<lparr>state_of := u ''awaiting_video_quality''\<rparr>)\<rparr>;
                               checking = EditMessage chat message
                                            (u ''Video selected. Checking available formats...'')
                           in if resolutions = []
                              then ([checking,
                                     EditMessage chat message
                                       (u ''Could not find any downloadable formats for that video.'')],
                                    b1\<lparr>user_state := (user_state b1)(user_id := None)\<rparr>)
                              else ([checking,
                                     EditMessage chat message (u ''Video selected. Choose your resolution:''),
                                     EditReplyMarkup chat message
                                       (rows_of_two (map (\<lambda>res. u ''yt_video|'' @ str_int res @ u ''|''
                                                                  @ str_int user_id) (rev resolutions)))],
                                    b1))
                        else ([], b))
                  else if prefix (u ''yt_audio|'') data
                  then
                    (case middle_of_three data of
                       Inl e \<Rightarrow> ([apology], b)
                     | Inr fmt \<Rightarrow>
                        ([EditMessage chat message
                            (u ''Got it! Starting download for '' @ py_upper rt fmt @ u ''...''),
                          StartDownload chat user_id url_info fmt],
                         b\<lparr>user_tasks := (user_tasks b)(user_id \<mapsto> (chat, user_id, url_info, fmt)),
                           user_state := (user_state b)(user_id := None)\<rparr>))
                  else if prefix (u ''yt_video|'') data
                  then
                    (case middle_of_three data of
                       Inl e \<Rightarrow> ([apology], b)
                     | Inr fmt \<Rightarrow>
                        ([EditMessage chat message
                            (u ''Got it! Starting download for '' @ fmt @ u ''p MP4...''),
                          StartDownload chat user_id url_info fmt],
                         b\<lparr>user_tasks := (user_tasks b)(user_id \<mapsto> (chat, user_id, url_info, fmt)),
                           user_state := (user_state b)(user_id := None)\<rparr>))
                  else ([], b))))"

section \<open>Evaluating the model\<close>


lemmas filename_eval = safe_filename_def splitext_def Let_def ascii_fold_def is_ascii_def unsafe_def
  is_space_def py_take_def ascii_rt_def accent_rt_def u_def

lemma str_int_12: "str_int 12 = [49, 50]"
  by (simp add: str_int_def str_nat.simps)


section \<open>The progress line of the status stream\<close>












section \<open>The silent fallback after a failed lookup\<close>












section \<open>The periodic recount\<close>

text \<open>
  The \<open>Downloaded\<close> line of the stream parser keeps the completed count within the total
  and the percentage within 100, and the progress message prints clamped numbers.
\<close>

lemma downloaded_line_keeps_bounds:
  assumes "re_search (downloading_at rt) l = None"
      and "re_search downloaded_at l = Some name"
      and "completed_tracks p \<le> total_tracks p"
      and "track_step rt l p = Inr p'"
  shows "completed_tracks p' \<le> total_tracks p' \<and> percentage p' \<le> 100"
  using assms by (auto simp: track_step_def Let_def split: if_splits)

lemma shown_progress_clamped:
  "shown_progress p = (c, t, f) \<Longrightarrow> 0 < t \<and> c \<le> t"
  by (auto simp: shown_progress_def Let_def split: if_splits)

text \<open>
  C2. Every operation on a progress record is to keep the percentage between 0 and 100
  and the completed count at most the total. The periodic recount does not: a record
  fresh from \<open>process_download\<close> (no track completed, total 1) with three \<open>*.mp3\<close> files
  on disk is left with 3 completed tracks of 1 and 300 percent. The \<open>Downloaded\<close> line of
  the stream parser and the progress message both clamp.
\<close>

theorem recount_exceeds_total:
  "within_bounds (init_progress 7 8 (u ''spotify'') (u ''1234'')) \<and>
   completed_tracks (update_progress_periodically ascii_rt (Some 3)
     (init_progress 7 8 (u ''spotify'') (u ''1234''))) = 3 \<and>
   total_tracks (update_progress_periodically ascii_rt (Some 3)
     (init_progress 7 8 (u ''spotify'') (u ''1234''))) = 1 \<and>
   percentage (update_progress_periodically ascii_rt (Some 3)
     (init_progress 7 8 (u ''spotify'') (u ''1234''))) = 300 \<and>
   \<not> within_bounds (update_progress_periodically ascii_rt (Some 3)
     (init_progress 7 8 (u ''spotify'') (u ''1234'')))"
  by (simp add: within_bounds_def update_progress_periodically_def init_progress_def ascii_rt_def)




section \<open>The delivery decision\<close>




section \<open>The check of the user behind a button\<close>

text \<open>
  C6. A callback whose payload carries the id of another user is to be rejected with
  nothing changed. The handler looks for \<open>|12\<close> anywhere in the payload, so user 12
  pressing a button made for user 123 passes the check: with a conversation of their own
  open, a download is started for them and that conversation is deleted.
\<close>

theorem prefix_id_accepted:
  "fst (handle_callback_query ascii_rt []
        \<lparr>cq_chat_id = 5, cq_from_id = 12, cq_message_id = 9, cq_data = u ''yt_audio|mp3|123''\<rparr>
        \<lparr>user_state = [12 \<mapsto> \<lparr>url_info_of = [u ''url'' \<mapsto> u ''https://youtu.be/abc''],
                                  state_of = u ''awaiting_audio_quality''\<rparr>],
          user_tasks = Map.empty, progress_of = Map.empty, active_downloads = {}\<rparr>)
     = [EditMessage 5 9 (u ''Got it! Starting download for MP3...''),
        StartDownload 5 12 [u ''url'' \<mapsto> u ''https://youtu.be/abc''] (u ''mp3'')]
   \<and> user_state (snd (handle_callback_query ascii_rt []
        \<lparr>cq_chat_id = 5, cq_from_id = 12, cq_message_id = 9, cq_data = u ''yt_audio|mp3|123''\<rparr>
        \<lparr>user_state = [12 \<mapsto> \<lparr>url_info_of = [u ''url'' \<mapsto> u ''https://youtu.be/abc''],
                                  state_of = u ''awaiting_audio_quality''\<rparr>],
          user_tasks = Map.empty, progress_of = Map.empty, active_downloads = {}\<rparr>)) 12 = None
   \<and> user_tasks (snd (handle_callback_query ascii_rt []
        \<lparr>cq_chat_id = 5, cq_from_id = 12, cq_message_id = 9, cq_data = u ''yt_audio|mp3|123''\<rparr>
        \<lparr>user_state = [12 \<mapsto> \<lparr>url_info_of = [u ''url'' \<mapsto> u ''https://youtu.be/abc''],
                                  state_of = u ''awaiting_audio_quality''\<rparr>],
          user_tasks = Map.empty, progress_of = Map.empty, active_downloads = {}\<rparr>)) 12
       = Some (5, 12, [u ''url'' \<mapsto> u ''https://youtu.be/abc''], u ''mp3'')"
  by (simp add: handle_callback_query_def Let_def middle_of_three_def py_split_def py_upper_def
      is_ascii_def str_int_12 u_def)

section \<open>The search phrases of the fallback chain\<close>









section \<open>Sanitised file names\<close>

lemma splitext_append: "fst (splitext rt p) @ snd (splitext rt p) = p"
  by (simp add: splitext_def Let_def)

lemma set_py_take: "set (py_take k xs) \<subseteq> set xs"
  by (auto simp: py_take_def dest: in_set_takeD)

lemma length_py_take: "0 \<le> k \<Longrightarrow> int (length (py_take k xs)) \<le> k"
  by (simp add: py_take_def)

lemma ascii_fold_ascii: "c \<in> set (ascii_fold rt s) \<Longrightarrow> is_ascii c"
  by (simp add: ascii_fold_def)

lemma ascii_fold_id: "\<forall>c\<in>set s. is_ascii c \<Longrightarrow> ascii_fold rt s = s"
  by (induction s) (auto simp: ascii_fold_def)

lemma underscore_safe: "\<not> unsafe 95"
  by (simp add: unsafe_def is_space_def)

lemma sub_unsafe_safe: "c \<in> set (sub_unsafe s) \<Longrightarrow> \<not> unsafe c"
  by (induction s rule: sub_unsafe.induct) (auto simp: underscore_safe split: if_splits)

lemma sub_unsafe_subset: "set (sub_unsafe s) \<subseteq> insert 95 (set s)"
proof (induction s rule: sub_unsafe.induct)
  case 1
  show ?case by simp
next
  case (2 c cs)
  show ?case
  proof (cases "unsafe c")
    case True
    have "set (dropWhile unsafe cs) \<subseteq> set cs" by (auto dest: set_dropWhileD)
    with True 2 show ?thesis by auto
  next
    case False
    with 2 show ?thesis by auto
  qed
qed

lemma sub_unsafe_id: "\<forall>c\<in>set s. \<not> unsafe c \<Longrightarrow> sub_unsafe s = s"
  by (induction s) auto

lemma sub_unsafe_ascii: "\<forall>c\<in>set s. is_ascii c \<Longrightarrow> c \<in> set (sub_unsafe s) \<Longrightarrow> is_ascii c"
  using sub_unsafe_subset [of s] by (auto simp: is_ascii_def)

lemma safe_filename_eq:
  "safe_filename rt s n =
     (let b1 = sub_unsafe (ascii_fold rt (fst (splitext rt s)));
          e1 = take 10 (snd (splitext rt s))
      in (if n - int (length e1) < int (length b1) then py_take (n - int (length e1)) b1 else b1) @ e1)"
  by (cases "splitext rt s") (simp add: safe_filename_def Let_def)

lemma base_clean:
  assumes "c \<in> set (if k < int (length (sub_unsafe (ascii_fold rt b)))
                      then py_take k (sub_unsafe (ascii_fold rt b)) else sub_unsafe (ascii_fold rt b))"
  shows "is_ascii c \<and> \<not> unsafe c"
proof -
  have "c \<in> set (sub_unsafe (ascii_fold rt b))"
    using assms set_py_take [of k "sub_unsafe (ascii_fold rt b)"] by (auto split: if_splits)
  then show ?thesis
    using sub_unsafe_safe [of c] sub_unsafe_ascii [of "ascii_fold rt b" c] ascii_fold_ascii [of _ rt b]
    by blast
qed

text \<open>
  C8, as stated: for every file name and bound the result is ASCII, no longer than the
  bound, and ends with the extension of the file name. The extension is neither
  normalised nor counted against the bound, and is cut to ten characters: \<open>a.\<close> followed
  by U+00E9 keeps that letter, \<open>abc.txt\<close> with the bound 0 gives the four characters
  \<open>.txt\<close>, and \<open>a.abcdefghijklmnop\<close> gives \<open>a.abcdefghi\<close>.
\<close>

theorem extension_not_sanitized:
  "safe_filename ascii_rt (u ''a.'' @ [233]) 240 = u ''a.'' @ [233] \<and> \<not> is_ascii 233
   \<and> \<not> int (length (safe_filename ascii_rt (u ''abc.txt'') 0)) \<le> 0
   \<and> snd (splitext ascii_rt (u ''a.abcdefghijklmnop'')) = u ''.abcdefghijklmnop''
   \<and> safe_filename ascii_rt (u ''a.abcdefghijklmnop'') 240 = u ''a.abcdefghi''"
  by (simp add: filename_eval)

text \<open>
  C8, amended: for every file name whose extension, as \<open>os.path.splitext\<close> reads it, is
  ASCII and has at most ten characters, and for every bound no smaller than the length of
  that extension, the result is ASCII, consists of a part without path-unsafe characters
  followed by that extension, and is no longer than the bound.
\<close>

theorem safe_filename_sanitized:
  assumes "\<forall>c\<in>set (snd (splitext rt filename)). is_ascii c"
      and "length (snd (splitext rt filename)) \<le> 10"
      and "int (length (snd (splitext rt filename))) \<le> max_length"
  shows "(\<forall>c\<in>set (safe_filename rt filename max_length). is_ascii c)
         \<and> (\<exists>base. safe_filename rt filename max_length = base @ snd (splitext rt filename)
                    \<and> (\<forall>c\<in>set base. \<not> unsafe c))
         \<and> int (length (safe_filename rt filename max_length)) \<le> max_length"
proof -
  let ?e = "snd (splitext rt filename)"
  let ?b1 = "sub_unsafe (ascii_fold rt (fst (splitext rt filename)))"
  let ?k = "max_length - int (length ?e)"
  let ?b2 = "if ?k < int (length ?b1) then py_take ?k ?b1 else ?b1"
  have e1: "take 10 ?e = ?e" using assms(2) by simp
  have r: "safe_filename rt filename max_length = ?b2 @ ?e"
    by (simp add: safe_filename_eq Let_def e1)
  have clean: "\<forall>c\<in>set ?b2. is_ascii c \<and> \<not> unsafe c"
    using base_clean [of _ ?k rt "fst (splitext rt filename)"] by blast
  have k: "0 \<le> ?k" using assms(3) by simp
  have len: "int (length ?b2) \<le> ?k"
    using length_py_take [OF k, of ?b1] by (simp split: if_splits)
  have a: "\<forall>c\<in>set (safe_filename rt filename max_length). is_ascii c"
    unfolding r using clean assms(1) by auto
  have b: "\<exists>base. safe_filename rt filename max_length = base @ ?e \<and> (\<forall>c\<in>set base. \<not> unsafe c)"
    using r clean by blast
  have c: "int (length (safe_filename rt filename max_length)) \<le> max_length"
    unfolding r using len by simp
  from a b c show ?thesis by blast
qed

text \<open>
  C8, a witness: \<open>Caf\<close>, U+00E9, \<open> au lait: live?.mp3\<close> with the bound 20, in the runtime
  that decomposes U+00E9 into \<open>e\<close> and the combining acute accent.
\<close>

theorem safe_filename_sanitized_witness:
  "snd (splitext accent_rt
          (u ''Caf'' @ [233] @ u '' au lait: live?.mp3'')) = u ''.mp3''
   \<and> safe_filename accent_rt
        (u ''Caf'' @ [233] @ u '' au lait: live?.mp3'') 20 = u ''Cafe_au_lait_liv.mp3''"
proof -
  have e: "snd (splitext accent_rt
                      (u ''Caf'' @ [233] @ u '' au lait: live?.mp3'')) = u ''.mp3''"
    by (simp add: filename_eval)
  have v: "safe_filename accent_rt
        (u ''Caf'' @ [233] @ u '' au lait: live?.mp3'') 20 = u ''Cafe_au_lait_liv.mp3''"
    by (simp add: filename_eval)
  have h1: "\<forall>c\<in>set (snd (splitext accent_rt
                      (u ''Caf'' @ [233] @ u '' au lait: live?.mp3''))). is_ascii c"
    unfolding e by (simp add: is_ascii_def u_def)
  have h2: "length (snd (splitext accent_rt
                      (u ''Caf'' @ [233] @ u '' au lait: live?.mp3''))) \<le> 10"
    unfolding e by (simp add: u_def)
  have h3: "int (length (snd (splitext accent_rt
                      (u ''Caf'' @ [233] @ u '' au lait: live?.mp3'')))) \<le> 20"
    unfolding e by (simp add: u_def)
  show ?thesis
    using safe_filename_sanitized [OF h1 h2 h3] e v by blast
qed

text \<open>
  C10, as stated: sanitising twice with a bound no smaller than the extension of the result
  gives the same as sanitising once. The separator in \<open>a.b/cdefghijkl\<close> becomes an
  underscore, so the result \<open>a.b_cdefghijkl\<close> has an extension of thirteen characters,
  which a second pass cuts to ten.
\<close>

theorem second_pass_cuts_new_extension:
  "safe_filename ascii_rt (u ''a.b/cdefghijkl'') 240 = u ''a.b_cdefghijkl''
   \<and> int (length (snd (splitext ascii_rt (safe_filename ascii_rt (u ''a.b/cdefghijkl'') 240)))) \<le> 240
   \<and> safe_filename ascii_rt (safe_filename ascii_rt (u ''a.b/cdefghijkl'') 240) 240 = u ''a.b_cdefghi''
   \<and> safe_filename ascii_rt (safe_filename ascii_rt (u ''a.b/cdefghijkl'') 240) 240
       \<noteq> safe_filename ascii_rt (u ''a.b/cdefghijkl'') 240"
proof -
  have a: "safe_filename ascii_rt (u ''a.b/cdefghijkl'') 240 = u ''a.b_cdefghijkl''"
    by (simp add: filename_eval)
  have b: "safe_filename ascii_rt (u ''a.b_cdefghijkl'') 240 = u ''a.b_cdefghi''"
    by (simp add: filename_eval)
  have c: "int (length (snd (splitext ascii_rt (u ''a.b_cdefghijkl'')))) \<le> 240"
    by (simp add: filename_eval)
  show ?thesis
    unfolding a b using c by (simp add: u_def)
qed

text \<open>
  C10, amended: sanitising twice gives the same as sanitising once for every file name and
  bound such that the extension of the result, as \<open>os.path.splitext\<close> reads it, is the
  extension of the file name cut to ten characters, and the bound is no smaller than its
  length.
\<close>

theorem safe_filename_idempotent:
  assumes "snd (splitext rt (safe_filename rt s n)) = take 10 (snd (splitext rt s))"
      and "int (length (take 10 (snd (splitext rt s)))) \<le> n"
  shows "safe_filename rt (safe_filename rt s n) n = safe_filename rt s n"
proof -
  define e1 where "e1 = take 10 (snd (splitext rt s))"
  define b1 where "b1 = sub_unsafe (ascii_fold rt (fst (splitext rt s)))"
  define b2 where "b2 = (if n - int (length e1) < int (length b1)
                          then py_take (n - int (length e1)) b1 else b1)"
  have r: "safe_filename rt s n = b2 @ e1"
    by (simp add: safe_filename_eq Let_def e1_def b1_def b2_def)
  have sn: "snd (splitext rt (b2 @ e1)) = e1"
    using assms(1) r by (simp add: e1_def)
  have "fst (splitext rt (b2 @ e1)) @ e1 = b2 @ e1"
    using splitext_append [of rt "b2 @ e1"] sn by simp
  then have f: "fst (splitext rt (b2 @ e1)) = b2" by simp
  have clean: "\<forall>c\<in>set b2. is_ascii c \<and> \<not> unsafe c"
    unfolding b2_def b1_def using base_clean by blast
  have af: "ascii_fold rt b2 = b2"
    using clean by (intro ascii_fold_id) blast
  have su: "sub_unsafe b2 = b2"
    using clean by (intro sub_unsafe_id) blast
  have k: "0 \<le> n - int (length e1)" using assms(2) by (simp add: e1_def)
  have len: "\<not> n - int (length e1) < int (length b2)"
    unfolding b2_def using length_py_take [OF k, of b1] by (simp split: if_splits)
  have e: "take 10 e1 = e1" by (simp add: e1_def)
  have "safe_filename rt (b2 @ e1) n = b2 @ e1"
    unfolding safe_filename_eq [of rt "b2 @ e1" n] Let_def f sn af su e using len by simp
  with r show ?thesis by simp
qed


text \<open>C10, a witness: \<open>my song.mp3\<close> with the bound 240.\<close>

theorem safe_filename_idempotent_witness:
  "snd (splitext ascii_rt (safe_filename ascii_rt (u ''my song.mp3'') 240))
     = take 10 (snd (splitext ascii_rt (u ''my song.mp3'')))
   \<and> int (length (take 10 (snd (splitext ascii_rt (u ''my song.mp3''))))) \<le> 240
   \<and> safe_filename ascii_rt (u ''my song.mp3'') 240 = u ''my_song.mp3''
   \<and> safe_filename ascii_rt (safe_filename ascii_rt (u ''my song.mp3'') 240) 240 = u ''my_song.mp3''"
proof -
  have v: "safe_filename ascii_rt (u ''my song.mp3'') 240 = u ''my_song.mp3''"
    by (simp add: filename_eval)
  have e: "snd (splitext ascii_rt (u ''my song.mp3'')) = u ''.mp3''"
    by (simp add: filename_eval)
  have e': "snd (splitext ascii_rt (u ''my_song.mp3'')) = u ''.mp3''"
    by (simp add: filename_eval)
  have h1: "snd (splitext ascii_rt (safe_filename ascii_rt (u ''my song.mp3'') 240))
     = take 10 (snd (splitext ascii_rt (u ''my song.mp3'')))"
    unfolding v e e' by (simp add: u_def)
  have h2: "int (length (take 10 (snd (splitext ascii_rt (u ''my song.mp3''))))) \<le> 240"
    unfolding e by (simp add: u_def)
  show ?thesis
    using safe_filename_idempotent [OF h1 h2] h1 h2 v by simp
qed

section \<open>The name of the archive\<close>




end
